theory Spec2Isabelle
  imports Main
begin

section \<open>Values, function references and contexts\<close>

text \<open>
  The JavaScript values that cross the interface of the event bus and of the host:
  what a handler returns, what \<open>trigger\<close> passes on as arguments, what an option holds.
  \<open>VThis\<close> is the object an operation is called on, which the chainable operations
  return (\<open>return this\<close>); \<open>VObj\<close> is any other object, known by its reference;
  \<open>VInherited key\<close> is the member \<open>key\<close> that an object finds on its prototype chain
  (a built-in function, or the prototype itself for \<open>__proto__\<close>).
\<close>

datatype val =
  VUndefined | VNull | VBool bool | VNum int | VStr string | VObj nat | VThis | VInherited string


text \<open>
  How an operation ends. \<open>Normal v\<close>: it returns \<open>v\<close>. \<open>Abrupt err\<close>: it raises; the
  source has no \<open>try\<close>, so the exception leaves every caller up to the outermost one.
  \<open>TypeError\<close> is raised by the runtime, \<open>Thrown v\<close> by a \<open>throw\<close> in a handler or in a
  plugin's constructor. \<open>Outside\<close>: the operation has assigned an object to the key
  \<open>__proto__\<close> of one of the plain objects the program uses as tables, which replaces
  the prototype of that table; what the program does from there on is not modelled,
  and nothing is stated about it.
\<close>

datatype error = TypeError | Thrown val

datatype completion = Normal val | Abrupt error | Outside

text \<open>
  The \<open>this\<close> a handler is invoked with: the emitter (the default of the parameter
  \<open>context: Object = this\<close>) or another object.
\<close>

datatype ctx = Self | Obj nat

text \<open>
  A function is known by its reference, since \<open>off\<close> compares functions with \<open>===\<close>.
  \<open>Fn h\<close> is the function a caller passes in (no \<open>fn\<close> property of its own).
  \<open>Magic i type fn context\<close> is the closure \<open>magic\<close> that \<open>once\<close> allocates: \<open>i\<close> is
  its identity (every call of \<open>once\<close> allocates a new one), \<open>type\<close>, \<open>fn\<close> and
  \<open>context\<close> are the variables it captures, and \<open>magic.fn = fn\<close>.
\<close>

datatype fnref = Fn nat | Magic nat string fnref ctx

text \<open>The property \<open>f.fn\<close> of a stored function: only \<open>magic\<close> has one.\<close>

fun fn_prop :: "fnref \<Rightarrow> fnref option" where
  "fn_prop (Fn h) = None"
| "fn_prop (Magic i type fn c) = Some fn"

section \<open>Plain objects as tables\<close>

text \<open>
  \<open>events\<close>, \<open>eventTypes\<close>, \<open>pluginsMap\<close> and \<open>plugins\<close> are object literals \<open>{}\<close>, and
  the options are an instance of a class: reading a key that is not an own property
  finds the member of that name on the prototype chain. The members of
  \<open>Object.prototype\<close> (ECMAScript, Annex B included) are functions, given here with
  their \<open>length\<close>, and the accessor \<open>__proto__\<close>, whose getter gives the prototype
  object and whose setter replaces the prototype when it is handed an object or
  \<open>null\<close> and does nothing otherwise.
\<close>

datatype inherited = Builtin nat | ProtoObject

definition object_prototype :: "string \<rightharpoonup> inherited" where
  "object_prototype =
     map_of
       [(''constructor'', Builtin 1),
        (''__defineGetter__'', Builtin 2),
        (''__defineSetter__'', Builtin 2),
        (''hasOwnProperty'', Builtin 1),
        (''__lookupGetter__'', Builtin 1),
        (''__lookupSetter__'', Builtin 1),
        (''isPrototypeOf'', Builtin 1),
        (''propertyIsEnumerable'', Builtin 1),
        (''toString'', Builtin 0),
        (''valueOf'', Builtin 0),
        (''toLocaleString'', Builtin 0),
        (''__proto__'', ProtoObject)]"


section \<open>The event emitter\<close>

text \<open>
  \<open>events\<close> holds the own properties of the object \<open>this.events\<close>, each an array of pairs
  \<open>[fn, context]\<close>; \<open>eventTypes\<close> holds those of \<open>this.eventTypes\<close>, each declared type
  mapped to itself. Two fields stand for effects outside the object: \<open>warnings\<close> lists
  the types \<open>hasType\<close> has passed to \<open>warn\<close>, in order, and \<open>closures\<close> counts the
  closures \<open>once\<close> has allocated, so that each gets a new identity.
\<close>

record EventEmitter =
  events :: "string \<rightharpoonup> (fnref \<times> ctx) list"
  eventTypes :: "string \<rightharpoonup> string"
  warnings :: "string list"
  closures :: nat

text \<open>
  The value of \<open>this.events[type]\<close>: the own array, else the inherited member, else
  \<open>undefined\<close>.
\<close>

datatype slot = Array "(fnref \<times> ctx) list" | Inherited inherited | Absent

definition events_at :: "EventEmitter \<Rightarrow> string \<Rightarrow> slot" where
  "events_at e type =
     (case events e type of
        Some evs \<Rightarrow> Array evs
      | None \<Rightarrow> (case object_prototype type of Some m \<Rightarrow> Inherited m | None \<Rightarrow> Absent))"

text \<open>
  Modelled from the spec: \<open>warn\<close> is imported from \<open>./debug\<close>, which is not among the
  sources. The spec calls what it emits a non-fatal diagnostic: it records the message
  and returns. The record keeps the offending type of each message, not its text.
\<close>

definition warn :: "string \<Rightarrow> EventEmitter \<Rightarrow> EventEmitter" where
  "warn type e = e\<lparr>warnings := warnings e @ [type]\<rparr>"

text \<open>
  \<open>types[type] === type\<close> holds of an own property only: an inherited member is not a
  string.
\<close>

definition hasType :: "string \<Rightarrow> EventEmitter \<Rightarrow> EventEmitter" where
  "hasType type e =
     (let isType = (eventTypes e type = Some type)
      in if \<not> isType then warn type e else e)"

text \<open>
  \<open>this.eventTypes[type] = type\<close> makes an own property, except for the key \<open>__proto__\<close>,
  where the setter is handed a string and does nothing.
\<close>

definition registerType :: "string list \<Rightarrow> EventEmitter \<Rightarrow> EventEmitter" where
  "registerType names e =
     fold (\<lambda>type e'. if type = ''__proto__'' then e'
                      else e'\<lparr>eventTypes := (eventTypes e')(type \<mapsto> type)\<rparr>) names e"

text \<open>The constructor: both tables empty, then the seed types registered.\<close>

definition new_EventEmitter :: "string list \<Rightarrow> EventEmitter" where
  "new_EventEmitter names =
     registerType names \<lparr>events = Map.empty, eventTypes = Map.empty, warnings = [], closures = 0\<rparr>"

definition destroy :: "EventEmitter \<Rightarrow> EventEmitter" where
  "destroy e = e\<lparr>events := Map.empty, eventTypes := Map.empty\<rparr>"

text \<open>
  \<open>on\<close>. When \<open>this.events[type]\<close> is \<open>undefined\<close> the array is created. An inherited
  member is truthy, so no array is created, and it has no \<open>push\<close>: the call
  \<open>this.events[type].push(...)\<close> raises a TypeError.
\<close>

definition on :: "string \<Rightarrow> fnref \<Rightarrow> ctx \<Rightarrow> EventEmitter \<Rightarrow> completion \<times> EventEmitter" where
  "on type fn c e =
     (let e1 = hasType type e in
      case events_at e1 type of
        Absent \<Rightarrow> (Normal VThis, e1\<lparr>events := (events e1)(type \<mapsto> [(fn, c)])\<rparr>)
      | Array evs \<Rightarrow> (Normal VThis, e1\<lparr>events := (events e1)(type \<mapsto> evs @ [(fn, c)])\<rparr>)
      | Inherited m \<Rightarrow> (Abrupt TypeError, e1))"

text \<open>
  \<open>off\<close>. The test of one stored pair against \<open>fn\<close>:
  \<open>events[count][0] === fn || (events[count][0] && events[count][0].fn === fn)\<close>.
\<close>

definition off_matches :: "fnref \<Rightarrow> fnref \<times> ctx \<Rightarrow> bool" where
  "off_matches fn ev = (fst ev = fn \<or> fn_prop (fst ev) = Some fn)"

text \<open>\<open>events.splice(count, 1)\<close>\<close>

definition splice1 :: "nat \<Rightarrow> 'a list \<Rightarrow> 'a list" where
  "splice1 count evs = take count evs @ drop (Suc count) evs"

text \<open>
  The loop \<open>while (count--) { if (...) events.splice(count, 1) }\<close>: the first argument
  is the value of \<open>count\<close> when the condition is tested.
\<close>

fun off_loop :: "nat \<Rightarrow> fnref \<Rightarrow> (fnref \<times> ctx) list \<Rightarrow> (fnref \<times> ctx) list" where
  "off_loop 0 fn evs = evs"
| "off_loop (Suc count) fn evs =
     off_loop count fn (if off_matches fn (evs ! count) then splice1 count evs else evs)"

text \<open>
  The parameters \<open>type?: string\<close> and \<open>fn?: Function\<close> are optional; \<open>!type\<close> holds of
  a missing type and of the empty string, \<open>!fn\<close> of a missing function only. The last
  branch is the end of the function body, reached when \<open>type\<close> is falsy and \<open>fn\<close> is
  given: nothing is returned.

  With a type and no function, \<open>this.events[type] = []\<close> makes an own array, except for
  the key \<open>__proto__\<close>, where the setter makes the new array the prototype of \<open>events\<close>.
  With a type and a function, \<open>events\<close> is what \<open>this.events[type]\<close> gives. An inherited
  function is truthy and \<open>count\<close> starts at its \<open>length\<close>: at 0 the loop does not run,
  above 0 it reads \<open>events[count][0]\<close>, where \<open>events[count]\<close> is \<open>undefined\<close>, and raises
  a TypeError. The prototype object has no \<open>length\<close>, so \<open>count--\<close> is \<open>NaN\<close> and the
  loop does not run.
\<close>

fun truthy_type :: "string option \<Rightarrow> bool" where
  "truthy_type None = False"
| "truthy_type (Some s) = (s \<noteq> [])"

definition off :: "string option \<Rightarrow> fnref option \<Rightarrow> EventEmitter \<Rightarrow> completion \<times> EventEmitter" where
  "off type fn e =
     (if \<not> truthy_type type \<and> fn = None then (Normal VThis, e\<lparr>events := Map.empty\<rparr>)
      else if truthy_type type then
        (case type of
           None \<Rightarrow> (Normal VUndefined, e)
         | Some t \<Rightarrow>
             (let e1 = hasType t e in
              case fn of
                None \<Rightarrow>
                  if t = ''__proto__'' then (Outside, e1)
                  else (Normal VThis, e1\<lparr>events := (events e1)(t \<mapsto> [])\<rparr>)
              | Some f \<Rightarrow>
                  (case events_at e1 t of
                     Absent \<Rightarrow> (Normal VThis, e1)
                   | Array evs \<Rightarrow>
                       (Normal VThis, e1\<lparr>events := (events e1)(t \<mapsto> off_loop (length evs) f evs)\<rparr>)
                   | Inherited (Builtin len) \<Rightarrow>
                       if len = 0 then (Normal VThis, e1) else (Abrupt TypeError, e1)
                   | Inherited ProtoObject \<Rightarrow> (Normal VThis, e1))))
      else (Normal VUndefined, e))"

text \<open>
  \<open>once\<close>: the closure \<open>magic\<close> is allocated and subscribed through \<open>on\<close> with the
  default context, so \<open>hasType\<close> runs twice; \<open>this\<close> is returned when \<open>on\<close> returns.
\<close>

definition once :: "string \<Rightarrow> fnref \<Rightarrow> ctx \<Rightarrow> EventEmitter \<Rightarrow> completion \<times> EventEmitter" where
  "once type fn c e =
     (let e1 = hasType type e;
          magic = Magic (closures e1) type fn c;
          e2 = e1\<lparr>closures := Suc (closures e1)\<rparr>
      in case on type magic Self e2 of
           (Normal v, e3) \<Rightarrow> (Normal VThis, e3)
         | (k, e3) \<Rightarrow> (k, e3))"

section \<open>Handlers and dispatch\<close>

text \<open>
  A handler is code of the caller. Its body is given as the bus operations it performs
  on the emitter, in order, and how it ends when they have all returned: it returns a
  value or throws one. Both may depend on the context and the arguments it is invoked
  with and on the emitter as it is when the handler is entered.
\<close>

datatype op =
    On string fnref ctx
  | Once string fnref ctx
  | Off "string option" "fnref option"
  | Trigger string "val list"
  | RegisterType "string list"
  | Destroy

datatype ending = Returns val | Throws val

fun ending_completion :: "ending \<Rightarrow> completion" where
  "ending_completion (Returns v) = Normal v"
| "ending_completion (Throws v) = Abrupt (Thrown v)"

type_synonym handlers = "nat \<Rightarrow> ctx \<Rightarrow> val list \<Rightarrow> EventEmitter \<Rightarrow> op list \<times> ending"

text \<open>
  What a dispatch pass did: one \<open>Call fn context args end inner\<close> for each application
  \<open>fn.apply(context, args)\<close>, with the way it ended and the applications made while it
  ran (those of nested passes, and that of the wrapped handler by \<open>magic\<close>).
\<close>

datatype call = Call fnref ctx "val list" completion "call list"

fun call_head :: "call \<Rightarrow> fnref \<times> ctx \<times> val list" where
  "call_head (Call fn c args k inner) = (fn, c, args)"

fun call_end :: "call \<Rightarrow> completion" where
  "call_end (Call fn c args k inner) = k"

type_synonym outcome = "(completion \<times> EventEmitter \<times> call list) option"

type_synonym trigger_fn = "string \<Rightarrow> val list \<Rightarrow> EventEmitter \<Rightarrow> outcome"

text \<open>
  \<open>trigger\<close> is re-entrant: a handler may call it, and nothing bounds the nesting. The
  functions below take the \<open>trigger\<close> that a handler body calls as the parameter
  \<open>trig\<close>; \<open>trigger\<close> itself closes the recursion with a bound on the nesting depth,
  and \<open>None\<close> is a pass that did not end within the bound.
\<close>

fun exec_op :: "trigger_fn \<Rightarrow> op \<Rightarrow> EventEmitter \<Rightarrow> outcome" where
  "exec_op trig (On type fn c) e = (case on type fn c e of (k, e1) \<Rightarrow> Some (k, e1, []))"
| "exec_op trig (Once type fn c) e = (case once type fn c e of (k, e1) \<Rightarrow> Some (k, e1, []))"
| "exec_op trig (Off type fn) e = (case off type fn e of (k, e1) \<Rightarrow> Some (k, e1, []))"
| "exec_op trig (Trigger type args) e = trig type args e"
| "exec_op trig (RegisterType names) e = Some (Normal VUndefined, registerType names e, [])"
| "exec_op trig Destroy e = Some (Normal VUndefined, destroy e, [])"

text \<open>A sequence of statements: the first that does not return ends it.\<close>

fun run_ops :: "trigger_fn \<Rightarrow> op list \<Rightarrow> EventEmitter \<Rightarrow> outcome" where
  "run_ops trig [] e = Some (Normal VUndefined, e, [])"
| "run_ops trig (x # xs) e =
     (case exec_op trig x e of
        None \<Rightarrow> None
      | Some (Normal v, e1, calls1) \<Rightarrow>
          (case run_ops trig xs e1 of
             None \<Rightarrow> None
           | Some (k, e2, calls2) \<Rightarrow> Some (k, e2, calls1 @ calls2))
      | Some (k, e1, calls1) \<Rightarrow> Some (k, e1, calls1))"

text \<open>
  What \<open>magic\<close> makes of the way the wrapped handler ended:
  \<open>const ret = fn.apply(context, args); if (ret === true) return ret\<close>.
\<close>

fun magic_completion :: "completion \<Rightarrow> completion" where
  "magic_completion (Normal ret) = Normal (if ret = VBool True then ret else VUndefined)"
| "magic_completion k = k"

text \<open>
  \<open>fn.apply(context, args)\<close>. For \<open>magic\<close> this is the body of the closure, which
  begins with \<open>this.off(type, magic)\<close>.
\<close>

fun apply_fn :: "trigger_fn \<Rightarrow> handlers \<Rightarrow> fnref \<Rightarrow> ctx \<Rightarrow> val list \<Rightarrow> EventEmitter \<Rightarrow> outcome" where
  "apply_fn trig H (Fn h) c args e =
     (case H h c args e of
        (ops, ending) \<Rightarrow>
          (case run_ops trig ops e of
             None \<Rightarrow> None
           | Some (Normal v, e1, calls) \<Rightarrow> Some (ending_completion ending, e1, calls)
           | Some (k, e1, calls) \<Rightarrow> Some (k, e1, calls)))"
| "apply_fn trig H (Magic i type fn c0) c args e =
     (case off (Some type) (Some (Magic i type fn c0)) e of
        (Normal v, e1) \<Rightarrow>
          (case apply_fn trig H fn c0 args e1 of
             None \<Rightarrow> None
           | Some (k, e2, calls) \<Rightarrow> Some (magic_completion k, e2, [Call fn c0 args k calls]))
      | (k, e1) \<Rightarrow> Some (k, e1, []))"

text \<open>
  The loop of \<open>trigger\<close> over \<open>eventsCopy\<close>. Every stored function is a function, so
  the test \<open>if (fn)\<close> holds. An application that returns \<open>true\<close> ends the loop with
  \<open>return ret\<close>; one that raises ends it with the exception.
\<close>

fun dispatch :: "trigger_fn \<Rightarrow> handlers \<Rightarrow> (fnref \<times> ctx) list \<Rightarrow> val list \<Rightarrow> EventEmitter \<Rightarrow> outcome" where
  "dispatch trig H [] args e = Some (Normal VUndefined, e, [])"
| "dispatch trig H ((fn, c) # rest) args e =
     (case apply_fn trig H fn c args e of
        None \<Rightarrow> None
      | Some (Normal ret, e1, inner) \<Rightarrow>
          if ret = VBool True then Some (Normal ret, e1, [Call fn c args (Normal ret) inner])
          else
            (case dispatch trig H rest args e1 of
               None \<Rightarrow> None
             | Some (k, e2, calls) \<Rightarrow> Some (k, e2, Call fn c args (Normal ret) inner # calls))
      | Some (k, e1, inner) \<Rightarrow> Some (k, e1, [Call fn c args k inner]))"

text \<open>
  \<open>trigger\<close>, with the nesting bound first. An own array is copied (\<open>[...events]\<close>)
  before the loop; the list handed to \<open>dispatch\<close> is that copy. An inherited member is
  truthy and not iterable: \<open>[...events]\<close> raises a TypeError.
\<close>

fun trigger :: "nat \<Rightarrow> handlers \<Rightarrow> string \<Rightarrow> val list \<Rightarrow> EventEmitter \<Rightarrow> outcome" where
  "trigger 0 H type args e = None"
| "trigger (Suc n) H type args e =
     (let e1 = hasType type e in
      case events_at e1 type of
        Absent \<Rightarrow> Some (Normal VUndefined, e1, [])
      | Array evs \<Rightarrow> dispatch (trigger n H) H evs args e1
      | Inherited m \<Rightarrow> Some (Abrupt TypeError, e1, []))"

section \<open>Reading a dispatch pass\<close>

text \<open>The own array stored for a type, empty when there is none.\<close>

definition subscriptions :: "EventEmitter \<Rightarrow> string \<Rightarrow> (fnref \<times> ctx) list" where
  "subscriptions e type = (case events e type of None \<Rightarrow> [] | Some evs \<Rightarrow> evs)"

text \<open>
  All applications of a pass, nested ones included, in the order they begin; and how
  many of them apply a given function.
\<close>

fun flatten :: "call \<Rightarrow> (fnref \<times> ctx \<times> val list) list" where
  "flatten (Call fn c args k inner) = (fn, c, args) # concat (map flatten inner)"

definition invoked :: "fnref \<Rightarrow> call list \<Rightarrow> nat" where
  "invoked fn calls = length (filter (\<lambda>a. fst a = fn) (concat (map flatten calls)))"

text \<open>
  Two successive calls of \<open>trigger\<close> with the same type and arguments, when both
  return: the applications of each and the emitter they leave.
\<close>

definition trigger_twice ::
  "nat \<Rightarrow> handlers \<Rightarrow> string \<Rightarrow> val list \<Rightarrow> EventEmitter \<Rightarrow> (call list \<times> call list \<times> EventEmitter) option" where
  "trigger_twice n H type args e =
     (case trigger n H type args e of
        Some (Normal r1, e1, calls1) \<Rightarrow>
          (case trigger n H type args e1 of
             Some (Normal r2, e2, calls2) \<Rightarrow> Some (calls1, calls2, e2)
           | _ \<Rightarrow> None)
      | _ \<Rightarrow> None)"

section \<open>The plugin registry and the host\<close>

text \<open>
  Modelled from the spec: the enumeration \<open>ApplyOrder\<close> is not among the sources. The
  spec gives the tags Pre and Post beside the default, which is the absence of a tag
  (\<open>applyOrder?: ApplyOrder.Pre | ApplyOrder.Post\<close>); both members are taken to be
  truthy values, as the test \<open>a.applyOrder ? ... : 0\<close> needs for Pre to differ from
  the default.
\<close>

datatype ApplyOrder = Pre | Post

text \<open>
  A plugin constructor: \<open>ctor_ref\<close> is its reference (\<open>use\<close> compares constructors
  with \<open>===\<close>), \<open>pluginName\<close> and \<open>ctor_applyOrder\<close> are its static properties, and
  \<open>kind\<close> says what \<open>typeof\<close> and \<open>new\<close> make of it: a value that is not a function, a
  function that \<open>new\<close> cannot construct (an arrow function, a method), or a class.
\<close>

datatype ctor_kind = NotFunction | NotConstructor | Constructor

record PluginCtor =
  ctor_ref :: nat
  pluginName :: string
  ctor_applyOrder :: "ApplyOrder option"
  kind :: ctor_kind

record PluginItem =
  name :: string
  applyOrder :: "ApplyOrder option"
  ctor :: PluginCtor

text \<open>The static members \<open>plugins\<close> and \<open>pluginsMap\<close> of \<open>CoreConstructor\<close>, shared by all hosts.\<close>

record Registry =
  plugins :: "PluginItem list"
  pluginsMap :: "string \<rightharpoonup> bool"

definition empty_Registry :: Registry where
  "empty_Registry = \<lparr>plugins = [], pluginsMap = Map.empty\<rparr>"

text \<open>What \<open>use\<close> returns: the class \<open>CoreConstructor\<close> itself, for chaining.\<close>

datatype handle = CoreConstructorRef

text \<open>The registry item that \<open>use\<close> makes of a constructor.\<close>

definition item_of :: "PluginCtor \<Rightarrow> PluginItem" where
  "item_of c = \<lparr>name = pluginName c, applyOrder = ctor_applyOrder c, ctor = c\<rparr>"

text \<open>
  \<open>use\<close>. \<open>pluginsMap[name] = true\<close> makes an own property, except for the key
  \<open>__proto__\<close>, where the setter is handed a boolean and does nothing.
\<close>

definition use :: "PluginCtor \<Rightarrow> Registry \<Rightarrow> handle \<times> Registry" where
  "use c reg =
     (let nm = pluginName c;
          installed = list_ex (\<lambda>plugin. ctor_ref c = ctor_ref (ctor plugin)) (plugins reg)
      in if installed then (CoreConstructorRef, reg)
         else (CoreConstructorRef,
               reg\<lparr>pluginsMap := (if nm = ''__proto__'' then pluginsMap reg
                                    else (pluginsMap reg)(nm \<mapsto> True)),
                   plugins := plugins reg @ [\<lparr>name = nm, applyOrder = ctor_applyOrder c, ctor = c\<rparr>]\<rparr>))"






text \<open>
  The host. \<open>emitter\<close> is the part of the object that the class inherits from
  \<open>EventEmitter\<close> (its own \<open>events\<close> and \<open>eventTypes\<close>), \<open>hooks\<close> is the second bus, and
  \<open>core_plugins\<close> holds the own properties of \<open>this.plugins\<close>.
\<close>

datatype plugin_instance = PluginInstance nat


















text \<open>The plugin map after the items of a list, in order, have been instantiated and stored.\<close>

definition installed :: "PluginItem list \<Rightarrow> (string \<rightharpoonup> plugin_instance)" where
  "installed items =
     foldl (\<lambda>m item. m(name item \<mapsto> PluginInstance (ctor_ref (ctor item)))) Map.empty items"



section \<open>Example data\<close>

text \<open>
  A handler table and emitters on which the theorems below are instantiated. Handler 0
  returns a number, handler 2 returns \<open>true\<close>, handler 5 subscribes handler 3 to the type
  \<open>constructor\<close>, and every other handler does nothing.
\<close>

definition demo_handlers :: handlers where
  "demo_handlers h c args e =
     (if h = 0 then ([], Returns (VNum 1))
      else if h = 2 then ([], Returns (VBool True))
      else if h = 5 then ([On ''constructor'' (Fn 3) Self], Returns VUndefined)
      else ([], Returns VUndefined))"

definition demo_emitter :: EventEmitter where
  "demo_emitter = new_EventEmitter [''tick'']"

text \<open>An emitter on which the type \<open>constructor\<close> is declared.\<close>

definition proto_emitter :: EventEmitter where
  "proto_emitter = new_EventEmitter [''constructor'']"

definition once_emitter :: EventEmitter where
  "once_emitter = snd (once ''tick'' (Fn 0) (Obj 8) demo_emitter)"


text \<open>
  Three plugins A, B and C with the tags Pre, Post and none, a fourth with the name of
  the first, the registry after \<open>use(A).use(B).use(C)\<close>, options that enable the three,
  options that enable A and name a plugin that is not registered, constructor bodies
  that do nothing but return, and constructor bodies of which that of A throws.
\<close>

definition plugin_A :: PluginCtor where
  "plugin_A = \<lparr>ctor_ref = 0, pluginName = ''a'', ctor_applyOrder = Some Pre, kind = Constructor\<rparr>"

definition plugin_B :: PluginCtor where
  "plugin_B = \<lparr>ctor_ref = 2, pluginName = ''b'', ctor_applyOrder = Some Post, kind = Constructor\<rparr>"

definition plugin_C :: PluginCtor where
  "plugin_C = \<lparr>ctor_ref = 3, pluginName = ''c'', ctor_applyOrder = None, kind = Constructor\<rparr>"

definition plugin_A2 :: PluginCtor where
  "plugin_A2 = \<lparr>ctor_ref = 4, pluginName = ''a'', ctor_applyOrder = None, kind = Constructor\<rparr>"

definition demo_registry :: Registry where
  "demo_registry = snd (use plugin_C (snd (use plugin_B (snd (use plugin_A empty_Registry)))))"





section \<open>The loop of off\<close>

text \<open>The loop removes exactly the pairs that the test matches and keeps the order of the rest.\<close>

lemma off_loop_filter_take:
  "count \<le> length evs \<Longrightarrow>
   off_loop count fn evs = filter (\<lambda>ev. \<not> off_matches fn ev) (take count evs) @ drop count evs"
proof (induction count arbitrary: evs)
  case 0
  then show ?case by simp
next
  case (Suc count)
  then have lt: "count < length evs" by simp
  show ?case
  proof (cases "off_matches fn (evs ! count)")
    case True
    have "count \<le> length (splice1 count evs)"
      using lt by (simp add: splice1_def)
    then have "off_loop count fn (splice1 count evs) =
        filter (\<lambda>ev. \<not> off_matches fn ev) (take count (splice1 count evs)) @ drop count (splice1 count evs)"
      by (rule Suc.IH)
    moreover have "take count (splice1 count evs) = take count evs"
      using lt by (simp add: splice1_def)
    moreover have "drop count (splice1 count evs) = drop (Suc count) evs"
      using lt by (simp add: splice1_def)
    ultimately show ?thesis
      using True lt by (simp add: take_Suc_conv_app_nth)
  next
    case False
    have "off_loop count fn evs =
        filter (\<lambda>ev. \<not> off_matches fn ev) (take count evs) @ drop count evs"
      using lt by (intro Suc.IH) simp
    then show ?thesis
      using False lt by (simp add: take_Suc_conv_app_nth Cons_nth_drop_Suc)
  qed
qed

lemma off_loop_filter:
  "off_loop (length evs) fn evs = filter (\<lambda>ev. \<not> off_matches fn ev) evs"
  by (simp add: off_loop_filter_take)

lemma hasType_events [simp]: "events (hasType type e) = events e"
  by (simp add: hasType_def warn_def)

lemma events_at_hasType [simp]: "events_at (hasType t e) type = events_at e type"
  by (simp add: events_at_def)

lemma subscriptions_off_handler:
  "type \<noteq> [] \<Longrightarrow>
   subscriptions (snd (off (Some type) (Some fn) e)) type =
     filter (\<lambda>ev. \<not> off_matches fn ev) (subscriptions e type)"
  by (auto simp: off_def subscriptions_def events_at_def Let_def off_loop_filter
      split: option.splits inherited.splits)

lemma off_handler_returns:
  "type \<noteq> [] \<Longrightarrow> events e type \<noteq> None \<or> object_prototype type = None \<Longrightarrow>
   fst (off (Some type) (Some fn) e) = Normal VThis"
  by (auto simp: off_def events_at_def Let_def split: option.splits)

section \<open>The loop of trigger\<close>

text \<open>
  The loop over a copied array applies a prefix of it, in order, each pair with its
  context and the arguments, and the whole of it when it ends by returning nothing.
\<close>

lemma dispatch_prefix:
  "dispatch trig H evs args e = Some (k, e', calls) \<Longrightarrow>
   \<exists>j\<le>length evs.
      map call_head calls = map (\<lambda>ev. (fst ev, snd ev, args)) (take j evs) \<and>
      (k = Normal VUndefined \<longrightarrow> j = length evs)"
proof (induction evs arbitrary: e calls)
  case Nil
  then show ?case by simp
next
  case (Cons ev evs)
  obtain fn c where ev: "ev = (fn, c)" by (cases ev)
  from Cons.prems obtain k1 e1 inner where
    ap: "apply_fn trig H fn c args e = Some (k1, e1, inner)"
    by (auto simp: ev split: option.splits)
  show ?case
  proof (cases "\<exists>ret. k1 = Normal ret \<and> ret \<noteq> VBool True")
    case True
    then obtain ret where k1: "k1 = Normal ret" "ret \<noteq> VBool True" by blast
    with Cons.prems ap obtain calls' where
      rest: "dispatch trig H evs args e1 = Some (k, e', calls')" and
      calls: "calls = Call fn c args (Normal ret) inner # calls'"
      by (auto simp: ev split: option.splits)
    from Cons.IH [OF rest] obtain j where
      "j \<le> length evs" "map call_head calls' = map (\<lambda>ev. (fst ev, snd ev, args)) (take j evs)"
      "k = Normal VUndefined \<longrightarrow> j = length evs"
      by blast
    then have "Suc j \<le> length (ev # evs) \<and>
        map call_head calls = map (\<lambda>ev. (fst ev, snd ev, args)) (take (Suc j) (ev # evs)) \<and>
        (k = Normal VUndefined \<longrightarrow> Suc j = length (ev # evs))"
      by (simp add: calls ev)
    then show ?thesis by blast
  next
    case False
    with Cons.prems ap have "calls = [Call fn c args k1 inner]" "k = k1"
      by (auto simp: ev split: completion.splits if_splits)
    moreover from False \<open>k = k1\<close> have "k \<noteq> Normal VUndefined" by auto
    ultimately have "Suc 0 \<le> length (ev # evs) \<and>
        map call_head calls = map (\<lambda>ev. (fst ev, snd ev, args)) (take (Suc 0) (ev # evs)) \<and>
        (k = Normal VUndefined \<longrightarrow> Suc 0 = length (ev # evs))"
      by (simp add: ev)
    then show ?thesis by blast
  qed
qed

section \<open>The loop of applyPlugins\<close>















section \<open>Evaluating the example data\<close>

lemmas emitter_defs = new_EventEmitter_def registerType_def on_def once_def off_def hasType_def
  warn_def destroy_def Let_def subscriptions_def events_at_def object_prototype_def


lemma demo_registry_plugins:
  "plugins demo_registry = [item_of plugin_A, item_of plugin_B, item_of plugin_C]"
  by (simp add: demo_registry_def use_def Let_def empty_Registry_def item_of_def plugin_A_def plugin_B_def plugin_C_def)




section \<open>Claims about the event emitter\<close>

text \<open>
  Claim C1, at the event type \<open>constructor\<close>. \<open>this.events\<close> is a plain object, so
  \<open>this.events['constructor']\<close> is the inherited function \<open>Object\<close>: \<open>on\<close> makes no array
  and \<open>push\<close> is not a function of it. On an emitter that declares the type,
  \<open>on('constructor', h)\<close> raises a TypeError and subscribes nothing, and
  \<open>trigger('constructor')\<close> raises a TypeError at \<open>[...events]\<close> and invokes no handler.
\<close>

theorem on_prototype_name_raises:
  "eventTypes proto_emitter ''constructor'' = Some ''constructor'' \<and>
   on ''constructor'' (Fn 0) Self proto_emitter = (Abrupt TypeError, proto_emitter) \<and>
   map_option (\<lambda>(k, e', calls). (k, calls))
     (trigger (Suc 0) demo_handlers ''constructor'' [] proto_emitter) =
     Some (Abrupt TypeError, [])"
  by (simp add: proto_emitter_def emitter_defs)


text \<open>
  Claim C3, at the empty string as event type. The closure \<open>magic\<close> calls
  \<open>this.off(type, magic)\<close>; for the type \<open>""\<close> the tests \<open>!type\<close> and \<open>if (type)\<close> of \<open>off\<close>
  take the type for a missing one, nothing is removed, and each of two successive calls
  of \<open>trigger\<close> invokes the handler.
\<close>

theorem once_empty_type_fires_twice:
  "map_option (\<lambda>(calls1, calls2, e2). (invoked (Fn 0) calls1, invoked (Fn 0) calls2))
     (trigger_twice (Suc 0) demo_handlers [] [] (snd (once [] (Fn 0) Self (new_EventEmitter [[]])))) =
   Some (Suc 0, Suc 0)"
  by (simp add: trigger_twice_def emitter_defs demo_handlers_def invoked_def)

text \<open>
  Claim C4, at the empty string as event type. \<open>on("", h)\<close> subscribes the handler and
  \<open>trigger("")\<close> dispatches to it, but \<open>off("", h)\<close> reaches the end of the function:
  it returns nothing and leaves the emitter as it was, so a later \<open>trigger("")\<close> invokes
  the handler, subscribed by \<open>on\<close> or by \<open>once\<close>.
\<close>

theorem off_empty_type_keeps_handler:
  "off (Some []) (Some (Fn 0)) (snd (on [] (Fn 0) Self (new_EventEmitter [[]]))) =
     (Normal VUndefined, snd (on [] (Fn 0) Self (new_EventEmitter [[]]))) \<and>
   map_option (\<lambda>(r, e', calls). map call_head calls)
     (trigger (Suc 0) demo_handlers [] []
        (snd (off (Some []) (Some (Fn 0)) (snd (on [] (Fn 0) Self (new_EventEmitter [[]])))))) =
     Some [(Fn 0, Self, [])] \<and>
   map_option (\<lambda>(r, e', calls). invoked (Fn 0) calls)
     (trigger (Suc 0) demo_handlers [] []
        (snd (off (Some []) (Some (Fn 0)) (snd (once [] (Fn 0) Self (new_EventEmitter [[]])))))) =
     Some (Suc 0)"
  by (simp add: emitter_defs demo_handlers_def invoked_def)

text \<open>
  Claim C5 as stated fails: the handler returns the number 1 and \<open>magic\<close> returns
  nothing.
\<close>

theorem once_adapter_forward_counterexample:
  "map_option (\<lambda>(ret, e', inner). (ret, inner))
     (apply_fn (trigger 0 demo_handlers) demo_handlers (Magic 0 ''tick'' (Fn 0) (Obj 8)) Self [VNum 7] once_emitter) =
   Some (Normal VUndefined, [Call (Fn 0) (Obj 8) [VNum 7] (Normal (VNum 1)) []])"
  by (simp add: once_emitter_def demo_emitter_def emitter_defs demo_handlers_def off_matches_def splice1_def)

text \<open>
  Claim C5, amended. For a type other than the empty string, the call
  \<open>this.off(type, magic)\<close> that an application of \<open>magic\<close> begins with leaves no
  subscription of \<open>magic\<close> in the array of the type, and it returns whenever the type
  has an array of its own or does not name a member of \<open>Object.prototype\<close>. When it
  has returned, \<open>magic\<close> applies the wrapped handler, with the context given to \<open>once\<close>
  and the arguments of the pass, to the emitter so changed; it returns \<open>true\<close> when the
  handler returned exactly \<open>true\<close> and nothing when the handler returned anything else,
  and it ends as the handler does when the handler does not return.
\<close>

theorem once_adapter:
  assumes "type \<noteq> []"
  shows "subscriptions (snd (off (Some type) (Some (Magic i type fn c0)) e)) type =
           filter (\<lambda>ev. \<not> off_matches (Magic i type fn c0) ev) (subscriptions e type) \<and>
         (\<forall>ev \<in> set (subscriptions (snd (off (Some type) (Some (Magic i type fn c0)) e)) type).
            fst ev \<noteq> Magic i type fn c0) \<and>
         (events e type \<noteq> None \<or> object_prototype type = None \<longrightarrow>
            fst (off (Some type) (Some (Magic i type fn c0)) e) = Normal VThis) \<and>
         (fst (off (Some type) (Some (Magic i type fn c0)) e) = Normal VThis \<longrightarrow>
            apply_fn trig H (Magic i type fn c0) c args e =
              (case apply_fn trig H fn c0 args (snd (off (Some type) (Some (Magic i type fn c0)) e)) of
                 None \<Rightarrow> None
               | Some (k, e2, inner) \<Rightarrow>
                   Some (case k of
                           Normal v \<Rightarrow> Normal (if v = VBool True then VBool True else VUndefined)
                         | Abrupt err \<Rightarrow> Abrupt err
                         | Outside \<Rightarrow> Outside,
                         e2, [Call fn c0 args k inner])))"
proof (intro conjI impI)
  show "subscriptions (snd (off (Some type) (Some (Magic i type fn c0)) e)) type =
           filter (\<lambda>ev. \<not> off_matches (Magic i type fn c0) ev) (subscriptions e type)"
    using assms by (rule subscriptions_off_handler)
  then show "\<forall>ev \<in> set (subscriptions (snd (off (Some type) (Some (Magic i type fn c0)) e)) type).
            fst ev \<noteq> Magic i type fn c0"
    by (simp add: off_matches_def)
next
  assume "events e type \<noteq> None \<or> object_prototype type = None"
  with assms show "fst (off (Some type) (Some (Magic i type fn c0)) e) = Normal VThis"
    by (rule off_handler_returns)
next
  assume normal: "fst (off (Some type) (Some (Magic i type fn c0)) e) = Normal VThis"
  obtain k1 e1 where o: "off (Some type) (Some (Magic i type fn c0)) e = (k1, e1)"
    by (cases "off (Some type) (Some (Magic i type fn c0)) e")
  with normal have k1: "k1 = Normal VThis" by simp
  have mc: "\<And>k. magic_completion k =
      (case k of
         Normal v \<Rightarrow> Normal (if v = VBool True then VBool True else VUndefined)
       | Abrupt err \<Rightarrow> Abrupt err
       | Outside \<Rightarrow> Outside)"
    by (simp split: completion.splits)
  show "apply_fn trig H (Magic i type fn c0) c args e =
              (case apply_fn trig H fn c0 args (snd (off (Some type) (Some (Magic i type fn c0)) e)) of
                 None \<Rightarrow> None
               | Some (k, e2, inner) \<Rightarrow>
                   Some (case k of
                           Normal v \<Rightarrow> Normal (if v = VBool True then VBool True else VUndefined)
                         | Abrupt err \<Rightarrow> Abrupt err
                         | Outside \<Rightarrow> Outside,
                         e2, [Call fn c0 args k inner]))"
    by (simp add: o k1 mc split: option.splits)
qed

theorem once_adapter_witness:
  "subscriptions (snd (off (Some ''tick'') (Some (Magic 0 ''tick'' (Fn 2) (Obj 8)))
       (snd (once ''tick'' (Fn 2) (Obj 8) demo_emitter)))) ''tick'' = [] \<and>
   map_option (\<lambda>(ret, e', inner). (ret, inner))
     (apply_fn (trigger 0 demo_handlers) demo_handlers (Magic 0 ''tick'' (Fn 2) (Obj 8)) Self [VNum 7]
        (snd (once ''tick'' (Fn 2) (Obj 8) demo_emitter))) =
   Some (Normal (VBool True), [Call (Fn 2) (Obj 8) [VNum 7] (Normal (VBool True)) []])"
proof -
  let ?e = "snd (once ''tick'' (Fn 2) (Obj 8) demo_emitter)"
  let ?magic = "Magic 0 ''tick'' (Fn 2) (Obj 8)"
  have ne: "''tick'' \<noteq> []" by simp
  have subs: "subscriptions ?e ''tick'' = [(?magic, Self)]"
    by (simp add: demo_emitter_def emitter_defs)
  have own: "events ?e ''tick'' \<noteq> None \<or> object_prototype ''tick'' = None"
    by (simp add: demo_emitter_def emitter_defs)
  have inner: "map_option (\<lambda>(ret, e', inner). (ret, inner))
     (apply_fn (trigger 0 demo_handlers) demo_handlers (Fn 2) (Obj 8) [VNum 7]
        (snd (off (Some ''tick'') (Some ?magic) ?e))) = Some (Normal (VBool True), [])"
    by (simp add: demo_handlers_def)
  note inst = once_adapter [OF ne, of 0 "Fn 2" "Obj 8" ?e "trigger 0 demo_handlers" demo_handlers Self "[VNum 7]"]
  from inst have a: "subscriptions (snd (off (Some ''tick'') (Some ?magic) ?e)) ''tick'' = []"
    by (simp add: subs off_matches_def)
  from inst own have "fst (off (Some ''tick'') (Some ?magic) ?e) = Normal VThis"
    by blast
  with inst have eq: "apply_fn (trigger 0 demo_handlers) demo_handlers ?magic Self [VNum 7] ?e =
      (case apply_fn (trigger 0 demo_handlers) demo_handlers (Fn 2) (Obj 8) [VNum 7]
              (snd (off (Some ''tick'') (Some ?magic) ?e)) of
         None \<Rightarrow> None
       | Some (k, e2, inner) \<Rightarrow>
           Some (case k of
                   Normal v \<Rightarrow> Normal (if v = VBool True then VBool True else VUndefined)
                 | Abrupt err \<Rightarrow> Abrupt err
                 | Outside \<Rightarrow> Outside,
                 e2, [Call (Fn 2) (Obj 8) [VNum 7] k inner]))"
    by blast
  from inner have b: "map_option (\<lambda>(ret, e', inner). (ret, inner))
     (apply_fn (trigger 0 demo_handlers) demo_handlers ?magic Self [VNum 7] ?e) =
   Some (Normal (VBool True), [Call (Fn 2) (Obj 8) [VNum 7] (Normal (VBool True)) []])"
    unfolding eq by (auto simp del: apply_fn.simps split: option.splits)
  from a b show ?thesis by blast
qed

text \<open>
  Claim C8, at the empty string as event type. With \<open>""\<close> not declared, \<open>on("", h)\<close>
  warns and subscribes; \<open>off("", h)\<close> does not call \<open>hasType\<close>, emits no diagnostic and
  removes nothing, and \<open>off("")\<close> emits none and clears the subscriptions of every type.
\<close>

theorem off_empty_type_no_diagnostic:
  "eventTypes (snd (on [] (Fn 0) Self demo_emitter)) [] = None \<and>
   warnings (snd (on [] (Fn 0) Self demo_emitter)) = [[]] \<and>
   off (Some []) (Some (Fn 0)) (snd (on [] (Fn 0) Self demo_emitter)) =
     (Normal VUndefined, snd (on [] (Fn 0) Self demo_emitter)) \<and>
   warnings (snd (off (Some []) None (snd (on ''tick'' (Fn 0) Self demo_emitter)))) = [] \<and>
   subscriptions (snd (off (Some []) None (snd (on ''tick'' (Fn 0) Self demo_emitter)))) ''tick'' = []"
  by (simp add: demo_emitter_def emitter_defs)

text \<open>
  Claim C10. \<open>off(undefined, fn)\<close> returns nothing, where the other modes return the
  emitter, and leaves the emitter as it was: the subscriptions of every type and the
  declared types are unchanged.
\<close>

theorem off_handler_without_type:
  "off None (Some fn) e = (Normal VUndefined, e) \<and>
   events (snd (off None (Some fn) e)) = events e \<and>
   eventTypes (snd (off None (Some fn) e)) = eventTypes e \<and>
   fst (off None (Some fn) e) \<noteq> Normal VThis"
  by (simp add: off_def)

section \<open>Claims about the registry and the host\<close>




text \<open>
  Claim C7. A second \<open>use\<close> of the same constructor returns the class and leaves the
  registry as the first left it. A constructor whose reference is not in the registry
  is appended, whether or not its name is there already.
\<close>

theorem use_same_constructor_twice:
  "use c (snd (use c reg)) = (CoreConstructorRef, snd (use c reg)) \<and>
   fst (use c reg) = CoreConstructorRef \<and>
   (\<not> list_ex (\<lambda>plugin. ctor_ref c' = ctor_ref (ctor plugin)) (plugins reg) \<longrightarrow>
      plugins (snd (use c' reg)) = plugins reg @ [item_of c'] \<and>
      length (plugins (snd (use c' reg))) = Suc (length (plugins reg)))"
  by (auto simp: use_def Let_def item_of_def list_ex_iff)

theorem use_same_constructor_twice_witness:
  "plugins (snd (use plugin_A2 demo_registry)) =
     [item_of plugin_A, item_of plugin_B, item_of plugin_C, item_of plugin_A2] \<and>
   name (item_of plugin_A2) = name (item_of plugin_A) \<and>
   plugins (snd (use plugin_A (snd (use plugin_A demo_registry)))) =
     [item_of plugin_A, item_of plugin_B, item_of plugin_C]"
proof -
  have fresh: "\<not> list_ex (\<lambda>plugin. ctor_ref plugin_A2 = ctor_ref (ctor plugin)) (plugins demo_registry)"
    by (simp add: demo_registry_plugins item_of_def plugin_A_def plugin_B_def plugin_C_def plugin_A2_def)
  have installed: "list_ex (\<lambda>plugin. ctor_ref plugin_A = ctor_ref (ctor plugin)) (plugins demo_registry)"
    by (simp add: demo_registry_plugins item_of_def)
  then have same: "snd (use plugin_A demo_registry) = demo_registry"
    by (simp add: use_def Let_def)
  from use_same_constructor_twice [of plugin_A demo_registry plugin_A2] fresh same
  show ?thesis
    by (simp add: demo_registry_plugins item_of_def plugin_A_def plugin_A2_def)
qed




end
